theory Spec2Isabelle
  imports Main
begin

section \<open>Python values shared by the three modules\<close>

text \<open>
  Exceptions are values.  \<open>ApiRateLimitedError\<close> is a subclass of \<open>ApiError\<close> with
  status code 429, and \<open>SignatureExpired\<close> is a subclass of \<open>BadSignature\<close>; an
  \<open>except\<close> clause is modelled by the \<open>isinstance\<close> predicates below.
\<close>

datatype exn =
    ApiError "int option" string
  | ApiRateLimitedError string
  | RuntimeError string
  | ValueError
  | KeyError string
  | BadSignature
  | SignatureExpired
  | OtherException string

fun is_ApiError :: "exn \<Rightarrow> bool" where
  "is_ApiError (ApiError c t) = True"
| "is_ApiError (ApiRateLimitedError t) = True"
| "is_ApiError e = False"

fun error_code :: "exn \<Rightarrow> int option" where
  "error_code (ApiError c t) = c"
| "error_code (ApiRateLimitedError t) = Some 429"
| "error_code e = None"

fun is_BadSignature :: "exn \<Rightarrow> bool" where
  "is_BadSignature BadSignature = True"
| "is_BadSignature SignatureExpired = True"
| "is_BadSignature e = False"

text \<open>Calls to the logger, the metrics backend and the error reporter, in call order.\<close>

datatype event =
    MetricIncr string
  | LogInfo string
  | LogWarning string
  | LogException string

subsection \<open>String methods\<close>

text \<open>\<open>s.replace(old, new)\<close> for a one-character \<open>old\<close>.\<close>

fun str_replace :: "char \<Rightarrow> string \<Rightarrow> string \<Rightarrow> string" where
  "str_replace old new [] = []"
| "str_replace old new (c # cs) =
     (if c = old then new @ str_replace old new cs else c # str_replace old new cs)"

text \<open>\<open>d.get(k)\<close> on a dictionary whose values may be \<open>None\<close>.\<close>

definition dict_get :: "('k \<times> 'v option) list \<Rightarrow> 'k \<Rightarrow> 'v option" where
  "dict_get d k = (case map_of d k of None \<Rightarrow> None | Some v \<Rightarrow> v)"

text \<open>\<open>not v\<close> for an optional string: \<open>None\<close> and the empty string are falsy.\<close>

definition py_not :: "string option \<Rightarrow> bool" where
  "py_not v = (case v of None \<Rightarrow> True | Some s \<Rightarrow> s = [])"

section \<open>Note activity notification (notifications/activity/note.py)\<close>

text \<open>
  The activity's \<open>data\<close> dictionary holds the note under the key \<open>text\<close>; the note is
  a string, on which \<open>str\<close> is the identity.  A missing key raises \<open>KeyError\<close>.
\<close>

record Activity =
  data :: "(string \<times> string) list"

record NoteActivityNotification =
  activity :: Activity

definition get_description ::
  "NoteActivityNotification \<Rightarrow> exn + (string \<times> string option \<times> (string \<times> string) list)" where
  "get_description self =
     (case map_of (data (activity self)) ''text'' of
        None \<Rightarrow> Inl (KeyError ''text'')
      | Some v \<Rightarrow>
          (let text = str_replace CHR ''}'' ''}}'' (str_replace CHR ''{'' ''{{'' v)
           in Inr (text, None, [])))"

text \<open>
  The description in the words of the specification: every brace is doubled where it
  stands and every other character is kept.
\<close>

definition doubled_braces :: "string \<Rightarrow> string" where
  "doubled_braces text =
     concat (map (\<lambda>c. if c = CHR ''{'' then ''{{''
                      else if c = CHR ''}'' then ''}}'' else [c]) text)"

section \<open>GitLab blame fetcher (integrations/gitlab/blame.py)\<close>

definition MINIMUM_REQUESTS :: int where
  "MINIMUM_REQUESTS = 100"

text \<open>
  A commit of the provider's response is a dictionary with optional string values; a
  blame hunk pairs such a commit (possibly absent) with the lines it covers.
\<close>

type_synonym GitLabCommitResponse = "(string \<times> string option) list"

record GitLabFileBlameResponseItem =
  item_commit :: "GitLabCommitResponse option"
  item_lines :: "string list"

record Repository =
  name :: string
  config :: "(string \<times> string option) list"

record SourceLineInfo =
  lineno :: int
  path :: string
  ref :: string
  repo :: Repository

text \<open>
  \<open>committedDate\<close> is the parsed date after \<open>replace(tzinfo=timezone.utc)\<close>: a UTC
  instant, counted in microseconds, so that the order of the dates is the order of the
  integers.
\<close>

record CommitInfo =
  commitId :: string
  committedDate :: int
  commitMessage :: "string option"
  commitAuthorName :: "string option"
  commitAuthorEmail :: "string option"

record FileBlameInfo = SourceLineInfo +
  commit :: CommitInfo

text \<open>
  Modelled from the spec: \<open>GitLabRateLimitInfo\<close> of \<open>sentry.integrations.gitlab.utils\<close>,
  the remaining, limit and reset-window values parsed from the response headers.  An
  instance is always truthy.
\<close>

record GitLabRateLimitInfo =
  limit :: int
  remaining :: int
  reset :: int

text \<open>
  A response of the client: a \<open>SequenceApiResponse\<close> (the hunks, with the headers of
  the HTTP response) or a response of any other class.
\<close>

datatype api_response =
    SequenceApiResponse "GitLabFileBlameResponseItem list" "(string \<times> string) list"
  | OtherApiResponse "(string \<times> string) list"

record blame_params =
  param_ref :: string
  range_start :: int
  range_end :: int

text \<open>
  The collaborators of the fetcher, none of them in this module: the API client (its
  cache and its HTTP \<open>get\<close>, over a client state \<open>'c\<close> that also stands for the
  provider), the truth value of a cached response, \<open>urllib.parse.quote\<close>, the path
  template \<open>GitLabApiClientPath.blame\<close>, \<open>json.dumps\<close>, the parser of the rate-limit
  headers, and \<open>isodate.parse_datetime\<close> followed by the UTC stamp (\<open>None\<close> when it
  raises).
\<close>

record 'c blame_env =
  quote :: "string \<Rightarrow> string"
  blame_path :: "string option \<Rightarrow> string \<Rightarrow> string"
  json_dumps :: "blame_params \<Rightarrow> string"
  get_cache_key :: "string \<Rightarrow> string \<Rightarrow> string"
  check_cache :: "'c \<Rightarrow> string \<Rightarrow> api_response option"
  response_truthy :: "api_response \<Rightarrow> bool"
  client_get :: "'c \<Rightarrow> string \<Rightarrow> blame_params \<Rightarrow> (exn + api_response) \<times> 'c"
  set_cache :: "'c \<Rightarrow> string \<Rightarrow> api_response \<Rightarrow> int \<Rightarrow> 'c"
  get_rate_limit_info_from_response :: "api_response \<Rightarrow> GitLabRateLimitInfo option"
  parse_datetime :: "string \<Rightarrow> int option"

text \<open>The state a call runs in: the client, and the log and metric calls made so far.\<close>

record 'c fetch_state =
  client :: 'c
  events :: "event list"

text \<open>
  \<open>max(b # xs, key=key)\<close>: the running maximum is replaced only by a strictly greater
  key, so the first of several maximal items is returned.
\<close>

fun py_max :: "('a \<Rightarrow> int) \<Rightarrow> 'a \<Rightarrow> 'a list \<Rightarrow> 'a" where
  "py_max key best [] = best"
| "py_max key best (x # xs) = py_max key (if key best < key x then x else best) xs"

definition create_commit_from_blame ::
  "'c blame_env \<Rightarrow> GitLabCommitResponse option \<Rightarrow> CommitInfo option \<times> event list" where
  "create_commit_from_blame E commit_arg =
     (case commit_arg of
        None \<Rightarrow> (None, [LogWarning ''get_blame_for_files.no_commit_in_response''])
      | Some c \<Rightarrow>
          if c = [] then (None, [LogWarning ''get_blame_for_files.no_commit_in_response''])
          else
            (let commit_id = dict_get c ''id'';
                 committed_date = dict_get c ''committed_date''
             in if py_not commit_id
                then (None, [LogWarning ''get_blame_for_files.invalid_commit_response''])
                else if py_not committed_date
                then (None, [LogWarning ''get_blame_for_files.invalid_commit_response''])
                else
                  (case parse_datetime E (the committed_date) of
                     None \<Rightarrow>
                       (None, [LogException ''get_blame_for_files.invalid_commit_response''])
                   | Some d \<Rightarrow>
                       (Some \<lparr>commitId = the commit_id,
                              committedDate = d,
                              commitMessage = dict_get c ''message'',
                              commitAuthorName = dict_get c ''author_name'',
                              commitAuthorEmail = dict_get c ''author_email''\<rparr>, []))))"

definition get_commit_info_from_blame_response ::
  "'c blame_env \<Rightarrow> GitLabFileBlameResponseItem list option \<Rightarrow> CommitInfo option \<times> event list" where
  "get_commit_info_from_blame_response E response =
     (case response of
        None \<Rightarrow> (None, [])
      | Some items \<Rightarrow>
          (let results = map (\<lambda>item. create_commit_from_blame E (item_commit item)) items;
               commits = map fst results;
               commits_with_required_info = List.map_filter (\<lambda>c. c) commits;
               logged = concat (map snd results)
           in case commits_with_required_info of
                [] \<Rightarrow> (None, logged)
              | c # cs \<Rightarrow> (Some (py_max committedDate c cs), logged)))"

definition create_file_blame_info :: "CommitInfo \<Rightarrow> SourceLineInfo \<Rightarrow> FileBlameInfo" where
  "create_file_blame_info c file = SourceLineInfo.extend file (FileBlameInfo.fields c)"

definition handle_file_blame_error ::
  "exn \<Rightarrow> SourceLineInfo \<Rightarrow> 'c fetch_state \<Rightarrow> 'c fetch_state" where
  "handle_file_blame_error error file s =
     s\<lparr>events := events s
          @ (if error_code error = Some 429
             then [MetricIncr ''sentry.integrations.gitlab.get_blame_for_files.rate_limit'']
             else [])
          @ [LogException ''get_blame_for_files.api_error'']\<rparr>"

text \<open>
  The first half of \<open>_fetch_file_blame\<close> (the request path, the parameters, the cache
  lookup and, on a miss, the HTTP call whose response is cached for 60 seconds).
\<close>

definition cached_or_fetched_response ::
  "'c blame_env \<Rightarrow> SourceLineInfo \<Rightarrow> 'c fetch_state \<Rightarrow> (exn + api_response) \<times> 'c fetch_state" where
  "cached_or_fetched_response E file s =
     (let project_id = dict_get (config (repo file)) ''project_id'';
          encoded_path = quote E (path file);
          request_path = blame_path E project_id encoded_path;
          params = \<lparr>param_ref = ref file, range_start = lineno file, range_end = lineno file\<rparr>;
          cache_key = get_cache_key E request_path (json_dumps E params);
          response = check_cache E (client s) cache_key
      in if (case response of None \<Rightarrow> False | Some r \<Rightarrow> response_truthy E r)
         then (Inr (the response),
               s\<lparr>events := events s
                    @ [LogInfo ''sentry.integrations.gitlab.get_blame_for_files.got_cached'']\<rparr>)
         else
           (case client_get E (client s) request_path params of
              (Inl e, c1) \<Rightarrow> (Inl e, s\<lparr>client := c1\<rparr>)
            | (Inr r, c1) \<Rightarrow> (Inr r, s\<lparr>client := set_cache E c1 cache_key r 60\<rparr>)))"

text \<open>The second half: the class check, the rate-limit headers, the commit.\<close>

definition fetch_file_blame ::
  "'c blame_env \<Rightarrow> SourceLineInfo \<Rightarrow> 'c fetch_state
     \<Rightarrow> (exn + CommitInfo option \<times> GitLabRateLimitInfo option) \<times> 'c fetch_state" where
  "fetch_file_blame E file s =
     (case cached_or_fetched_response E file s of
        (Inl e, s1) \<Rightarrow> (Inl e, s1)
      | (Inr response, s1) \<Rightarrow>
          (case response of
             OtherApiResponse hdrs \<Rightarrow>
               (Inl (ApiError None ''Response is not in expected format''), s1)
           | SequenceApiResponse items hdrs \<Rightarrow>
               (let rate_limit_info = get_rate_limit_info_from_response E response;
                    (found, logged) = get_commit_info_from_blame_response E (Some items)
                in (Inr (found, rate_limit_info), s1\<lparr>events := events s1 @ logged\<rparr>))))"

text \<open>
  The loop of \<open>fetch_file_blames\<close> over \<open>enumerate(files)\<close>: \<open>n\<close> is \<open>len(files)\<close>,
  \<open>i\<close> the index of the file at the head of the list.  An \<open>ApiError\<close> of a file is
  handled and the loop goes on; any other exception leaves the function; the
  \<open>else\<close> branch of the \<open>try\<close> holds the rate-limit guard.
\<close>

definition rate_limit_abort :: "'c fetch_state \<Rightarrow> (exn + FileBlameInfo list) \<times> 'c fetch_state" where
  "rate_limit_abort s =
     (Inl (ApiRateLimitedError ''Approaching GitLab API rate limit''),
      s\<lparr>events := events s
           @ [MetricIncr ''integrations.gitlab.get_blame_for_files.rate_limit'',
              LogException ''get_blame_for_files.rate_limit_too_low'']\<rparr>)"

fun fetch_loop ::
  "'c blame_env \<Rightarrow> nat \<Rightarrow> nat \<Rightarrow> SourceLineInfo list \<Rightarrow> FileBlameInfo list \<Rightarrow> 'c fetch_state
     \<Rightarrow> (exn + FileBlameInfo list) \<times> 'c fetch_state" where
  "fetch_loop E n i [] blames s = (Inr blames, s)"
| "fetch_loop E n i (file # rest) blames s =
     (case fetch_file_blame E file s of
        (Inl e, s1) \<Rightarrow>
          if is_ApiError e
          then fetch_loop E n (Suc i) rest blames (handle_file_blame_error e file s1)
          else (Inl e, s1)
      | (Inr (found, rate_limit_info), s1) \<Rightarrow>
          (let blames1 = (case found of
                            None \<Rightarrow> blames
                          | Some c \<Rightarrow> blames @ [create_file_blame_info c file])
           in if i = 0 \<and> 1 < n
                 \<and> (case rate_limit_info of
                       None \<Rightarrow> False
                     | Some info \<Rightarrow> remaining info < MINIMUM_REQUESTS - int n)
              then rate_limit_abort s1
              else fetch_loop E n (Suc i) rest blames1 s1))"

definition fetch_file_blames ::
  "'c blame_env \<Rightarrow> SourceLineInfo list \<Rightarrow> 'c fetch_state
     \<Rightarrow> (exn + FileBlameInfo list) \<times> 'c fetch_state" where
  "fetch_file_blames E files s = fetch_loop E (length files) 0 files [] s"

section \<open>Signed links (utils/linksign.py)\<close>

subsection \<open>String methods used by the module\<close>

text \<open>
  \<open>rsplit1 c s\<close> cuts \<open>s\<close> at its last \<open>c\<close>; \<open>s.rsplit(c, n)\<close> cuts at most \<open>n\<close> times,
  from the right; \<open>sep.join(parts)\<close>; \<open>s.split(c)\<close>, whose length is the number of
  \<open>c\<close>-delimited segments of \<open>s\<close>.
\<close>

fun rsplit1 :: "char \<Rightarrow> string \<Rightarrow> (string \<times> string) option" where
  "rsplit1 c [] = None"
| "rsplit1 c (x # xs) =
     (case rsplit1 c xs of
        Some (a, b) \<Rightarrow> Some (x # a, b)
      | None \<Rightarrow> if x = c then Some ([], xs) else None)"

fun rsplit :: "char \<Rightarrow> nat \<Rightarrow> string \<Rightarrow> string list" where
  "rsplit c 0 s = [s]"
| "rsplit c (Suc n) s =
     (case rsplit1 c s of None \<Rightarrow> [s] | Some (a, b) \<Rightarrow> rsplit c n a @ [b])"

fun str_join :: "string \<Rightarrow> string list \<Rightarrow> string" where
  "str_join sep [] = []"
| "str_join sep [x] = x"
| "str_join sep (x # y # ys) = x @ sep @ str_join sep (y # ys)"

fun str_split :: "char \<Rightarrow> string \<Rightarrow> string list" where
  "str_split c [] = [[]]"
| "str_split c (x # xs) =
     (if x = c then [] # str_split c xs
      else (case str_split c xs of [] \<Rightarrow> [[x]] | w # ws \<Rightarrow> (x # w) # ws))"

subsection \<open>Requests, users and collaborators\<close>

text \<open>
  \<open>generate_signed_link\<close> takes a user object (anything with an \<open>is_authenticated\<close>
  attribute; its \<open>id\<close> is the field \<open>user_id\<close> here) or a bare user id.
\<close>

record User =
  is_authenticated :: bool
  user_id :: int

datatype signing_user = UserObject User | UserId int

record request =
  request_path :: string
  GET :: "string \<Rightarrow> string option"

text \<open>
  The collaborators of the module, none of them in it: the option
  \<open>system.url-prefix\<close>, the URL resolver \<open>reverse\<close>, \<open>base36_encode\<close> and
  \<open>base36_decode\<close> of \<open>sentry.utils.numbers\<close>, the local region's \<open>to_url\<close>,
  \<open>urlencode\<close>, the user service, and of the framework's signer the keyed and salted
  MAC (\<open>signature_of\<close>) and the base-62 codec of its timestamps.  \<open>'u\<close> is the type of
  the users the service returns.
\<close>

record 'u link_env =
  url_prefix :: string
  reverse :: "string \<Rightarrow> string list option \<Rightarrow> (string \<times> string) list option \<Rightarrow> exn + string"
  base36_encode :: "int \<Rightarrow> string"
  base36_decode :: "string \<Rightarrow> exn + int"
  to_url :: "string \<Rightarrow> string"
  urlencode :: "(string \<times> string) list \<Rightarrow> string"
  get_user :: "int \<Rightarrow> exn + 'u option"
  signature_of :: "string \<Rightarrow> string"
  b62_encode :: "int \<Rightarrow> string"
  b62_decode :: "string \<Rightarrow> exn + int"

subsection \<open>The framework's timestamp signer\<close>

text \<open>
  \<open>get_signer()\<close> is the web framework's \<open>TimestampSigner\<close> with a fixed salt, an
  external library.  Its format is \<open>value:timestamp:signature\<close>: \<open>sign\<close> appends the
  base-62 clock reading (whole seconds) and then the MAC of the value so far;
  \<open>unsign\<close> cuts the MAC off at the last colon and compares it, cuts the timestamp
  off at the colon before and raises \<open>SignatureExpired\<close> when it is older than
  \<open>max_age\<close> seconds.  The clock is read in whole seconds.
\<close>

definition signer_sign :: "'u link_env \<Rightarrow> string \<Rightarrow> string" where
  "signer_sign E v = v @ '':'' @ signature_of E v"

definition signer_unsign :: "'u link_env \<Rightarrow> string \<Rightarrow> exn + string" where
  "signer_unsign E signed_value =
     (if CHR '':'' \<notin> set signed_value then Inl BadSignature
      else (case rsplit CHR '':'' 1 signed_value of
              [v, sig] \<Rightarrow> if sig = signature_of E v then Inr v else Inl BadSignature
            | _ \<Rightarrow> Inl ValueError))"

definition timestamp_sign :: "'u link_env \<Rightarrow> int \<Rightarrow> string \<Rightarrow> string" where
  "timestamp_sign E t v = signer_sign E (v @ '':'' @ b62_encode E t)"

definition timestamp_unsign :: "'u link_env \<Rightarrow> int \<Rightarrow> string \<Rightarrow> int \<Rightarrow> exn + string" where
  "timestamp_unsign E now signed_value max_age =
     (case signer_unsign E signed_value of
        Inl e \<Rightarrow> Inl e
      | Inr result \<Rightarrow>
          (case rsplit CHR '':'' 1 result of
             [v, timestamp] \<Rightarrow>
               (case b62_decode E timestamp of
                  Inl e \<Rightarrow> Inl e
                | Inr ts \<Rightarrow> if max_age < now - ts then Inl SignatureExpired else Inr v)
           | _ \<Rightarrow> Inl ValueError))"

subsection \<open>The module's functions\<close>

text \<open>\<open>t\<close> is the clock at the time of signing.\<close>

definition generate_signed_link ::
  "'u link_env \<Rightarrow> int \<Rightarrow> signing_user \<Rightarrow> string \<Rightarrow> string option \<Rightarrow> string list option
     \<Rightarrow> (string \<times> string) list option \<Rightarrow> exn + string" where
  "generate_signed_link E t user viewname referrer args kwargs =
     (case (case user of
              UserObject u \<Rightarrow>
                if \<not> is_authenticated u
                then Inl (RuntimeError ''Need an authenticated user to sign a link.'')
                else Inr (user_id u)
            | UserId i \<Rightarrow> Inr i) of
        Inl e \<Rightarrow> Inl e
      | Inr uid \<Rightarrow>
          (case reverse E viewname args kwargs of
             Inl e \<Rightarrow> Inl e
           | Inr link_path \<Rightarrow>
               (let item = url_prefix E @ ''|'' @ link_path @ ''|'' @ base36_encode E uid;
                    signature = str_join '':'' (drop 1 (rsplit CHR '':'' 2 (timestamp_sign E t item)));
                    signed_link = to_url E link_path @ ''?_='' @ base36_encode E uid @ '':'' @ signature
                in Inr (if \<not> py_not referrer
                        then signed_link @ ''&'' @ urlencode E [(''referrer'', the referrer)]
                        else signed_link))))"

definition find_signature :: "request \<Rightarrow> string option" where
  "find_signature req = GET req ''_''"

text \<open>
  The part of \<open>process_signature\<close> after its format check: the signed data is rebuilt
  from the current request, unsigned, split, and the user looked up.  The second
  component of the result lists the exceptions handed to \<open>capture_exception\<close>.
\<close>

definition verify_signature ::
  "'u link_env \<Rightarrow> int \<Rightarrow> request \<Rightarrow> string \<Rightarrow> int \<Rightarrow> (exn + 'u option) \<times> exn list" where
  "verify_signature E now req sig max_age =
     (let signed_data = url_prefix E @ ''|'' @ request_path req @ ''|'' @ sig
      in case timestamp_unsign E now signed_data max_age of
           Inl e \<Rightarrow> if is_BadSignature e then (Inr None, [e]) else (Inl e, [])
         | Inr signed \<Rightarrow>
             (case rsplit CHR ''|'' 2 signed of
                [u, signed_path, encoded_id] \<Rightarrow>
                  if signed_path \<noteq> request_path req then (Inr None, [])
                  else
                    (case base36_decode E encoded_id of
                       Inl e \<Rightarrow> if e = ValueError then (Inr None, []) else (Inl e, [])
                     | Inr uid \<Rightarrow>
                         (case get_user E uid of
                            Inl e \<Rightarrow> if e = ValueError then (Inr None, []) else (Inl e, [])
                          | Inr found \<Rightarrow> (Inr found, [])))
              | _ \<Rightarrow> (Inl ValueError, [])))"

definition process_signature ::
  "'u link_env \<Rightarrow> int \<Rightarrow> request \<Rightarrow> int \<Rightarrow> (exn + 'u option) \<times> exn list" where
  "process_signature E now req max_age =
     (let sig = find_signature req
      in if py_not sig \<or> count_list (the sig) CHR '':'' < 2 then (Inr None, [])
         else verify_signature E now req (the sig) max_age)"

section \<open>Conditions named by the specification\<close>

text \<open>
  A hunk lacks the required information when it has no commit, or its commit has no
  valid id, no committed date, or a committed date that does not parse.
\<close>

definition lacks_required_info :: "'c blame_env \<Rightarrow> GitLabFileBlameResponseItem \<Rightarrow> bool" where
  "lacks_required_info E item =
     (case item_commit item of
        None \<Rightarrow> True
      | Some c \<Rightarrow>
          py_not (dict_get c ''id'') \<or> py_not (dict_get c ''committed_date'')
          \<or> parse_datetime E (the (dict_get c ''committed_date'')) = None)"

text \<open>
  For a request carrying the parameter \<open>sig\<close>: the signature is tampered with when
  its last segment is not the MAC of what precedes it; it is expired when the MAC is
  genuine and the timestamp segment is more than \<open>max_age\<close> seconds old; the signed
  path mismatches when the signature verifies and the path segment of the signed
  payload is not the path of the request.
\<close>

definition signature_tampered :: "'u link_env \<Rightarrow> request \<Rightarrow> string \<Rightarrow> bool" where
  "signature_tampered E req sig =
     (case rsplit CHR '':'' 1 (url_prefix E @ ''|'' @ request_path req @ ''|'' @ sig) of
        [v, m] \<Rightarrow> m \<noteq> signature_of E v
      | _ \<Rightarrow> False)"

definition signature_expired :: "'u link_env \<Rightarrow> int \<Rightarrow> request \<Rightarrow> string \<Rightarrow> int \<Rightarrow> bool" where
  "signature_expired E now req sig max_age =
     (case rsplit CHR '':'' 2 (url_prefix E @ ''|'' @ request_path req @ ''|'' @ sig) of
        [v, timestamp, m] \<Rightarrow>
          m = signature_of E (v @ '':'' @ timestamp)
          \<and> (case b62_decode E timestamp of Inl e \<Rightarrow> False | Inr ts \<Rightarrow> max_age < now - ts)
      | _ \<Rightarrow> False)"

definition signed_path_mismatch :: "'u link_env \<Rightarrow> int \<Rightarrow> request \<Rightarrow> string \<Rightarrow> int \<Rightarrow> bool" where
  "signed_path_mismatch E now req sig max_age =
     (case timestamp_unsign E now (url_prefix E @ ''|'' @ request_path req @ ''|'' @ sig) max_age of
        Inl e \<Rightarrow> False
      | Inr signed \<Rightarrow>
          (case rsplit CHR ''|'' 2 signed of
             [u, signed_path, encoded_id] \<Rightarrow> signed_path \<noteq> request_path req
           | _ \<Rightarrow> False))"

section \<open>Sample environments\<close>

text \<open>
  A provider that answers by file path: an API error for \<open>bad\<close>, no hunks for
  \<open>nohunks\<close>, only unusable hunks for \<open>empty\<close>, and otherwise four hunks of which the
  last two carry the same, latest date.  Every answer reports five remaining requests.
  The client state counts the HTTP calls; nothing is cached.
\<close>

definition demo_hunk :: "string \<Rightarrow> string \<Rightarrow> GitLabFileBlameResponseItem" where
  "demo_hunk cid d =
     \<lparr>item_commit = Some [(''id'', Some cid), (''committed_date'', Some d)], item_lines = []\<rparr>"

definition demo_invalid_hunks :: "GitLabFileBlameResponseItem list" where
  "demo_invalid_hunks =
     [\<lparr>item_commit = None, item_lines = []\<rparr>,
      \<lparr>item_commit = Some [(''id'', Some ''x'')], item_lines = []\<rparr>,
      \<lparr>item_commit = Some [(''id'', None), (''committed_date'', Some ''d1'')], item_lines = []\<rparr>,
      demo_hunk ''y'' ''??'']"

definition demo_hunks :: "GitLabFileBlameResponseItem list" where
  "demo_hunks = [demo_hunk ''a'' ''d1'', demo_hunk ''y'' ''??'', demo_hunk ''b'' ''d2'',
                 demo_hunk ''c'' ''d2'']"

definition demo_env :: "nat blame_env" where
  "demo_env =
     \<lparr>quote = (\<lambda>p. p),
      blame_path = (\<lambda>project p. p),
      json_dumps = param_ref,
      get_cache_key = (\<lambda>p q. p @ q),
      check_cache = (\<lambda>c k. None),
      response_truthy = (\<lambda>r. True),
      client_get = (\<lambda>c p ps.
         if p = ''bad'' then (Inl (ApiError (Some 500) ''server error''), Suc c)
         else if p = ''nohunks''
         then (Inr (SequenceApiResponse [] [(''RateLimit-Remaining'', ''5'')]), Suc c)
         else if p = ''empty''
         then (Inr (SequenceApiResponse demo_invalid_hunks [(''RateLimit-Remaining'', ''5'')]), Suc c)
         else (Inr (SequenceApiResponse demo_hunks [(''RateLimit-Remaining'', ''5'')]), Suc c)),
      set_cache = (\<lambda>c k r t. c),
      get_rate_limit_info_from_response = (\<lambda>r.
         case r of
           SequenceApiResponse items hdrs \<Rightarrow>
             if map_of hdrs ''RateLimit-Remaining'' = Some ''5''
             then Some \<lparr>limit = 2000, remaining = 5, reset = 0\<rparr> else None
         | OtherApiResponse hdrs \<Rightarrow> None),
      parse_datetime = (\<lambda>d. if d = ''d1'' then Some 1 else if d = ''d2'' then Some 2 else None)\<rparr>"

definition demo_file :: "string \<Rightarrow> SourceLineInfo" where
  "demo_file p = \<lparr>lineno = 7, path = p, ref = ''main'', repo = \<lparr>name = ''r'', config = []\<rparr>\<rparr>"

definition demo_state :: "nat fetch_state" where
  "demo_state = \<lparr>client = 0, events = []\<rparr>"

definition demo_commit :: "string \<Rightarrow> int \<Rightarrow> CommitInfo" where
  "demo_commit cid d = \<lparr>commitId = cid, committedDate = d, commitMessage = None,
     commitAuthorName = None, commitAuthorEmail = None\<rparr>"

text \<open>
  A signing environment with a toy MAC (the signed text without its colons), unary
  timestamps and a two-entry base-36 table.
\<close>

definition link_demo_env :: "string link_env" where
  "link_demo_env =
     \<lparr>url_prefix = ''http://x'',
      reverse = (\<lambda>viewname args kwargs. Inr (''/'' @ viewname @ ''/'')),
      base36_encode = (\<lambda>i. if i = 5 then ''5'' else if i = 10 then ''A'' else ''Z''),
      base36_decode = (\<lambda>s. if s = ''5'' then Inr 5 else if s = ''A'' then Inr 10 else Inl ValueError),
      to_url = (\<lambda>p. ''http://x'' @ p),
      urlencode = (\<lambda>kvs. concat (map (\<lambda>(k, v). k @ ''='' @ v) kvs)),
      get_user = (\<lambda>i. if i = 5 then Inr (Some ''alice'') else Inr None),
      signature_of = (\<lambda>v. filter (\<lambda>c. c \<noteq> CHR '':'') v),
      b62_encode = (\<lambda>t. replicate (nat t) CHR ''1''),
      b62_decode = (\<lambda>s. if list_all (\<lambda>c. c = CHR ''1'') s then Inr (int (length s))
                         else Inl ValueError)\<rparr>"

definition demo_request :: "string \<Rightarrow> string \<Rightarrow> request" where
  "demo_request p sig = \<lparr>request_path = p, GET = (\<lambda>k. if k = ''_'' then Some sig else None)\<rparr>"

definition demo_user :: User where
  "demo_user = \<lparr>is_authenticated = True, user_id = 5\<rparr>"

definition demo_sig :: string where
  "demo_sig = ''5:111:http//x|/v/|5111''"

section \<open>Properties of the note formatter\<close>

lemma str_replace_concat:
  "str_replace old new s = concat (map (\<lambda>c. if c = old then new else [c]) s)"
  by (induction s) simp_all

lemma replace_both_braces:
  "str_replace CHR ''}'' ''}}'' (str_replace CHR ''{'' ''{{'' s) = doubled_braces s"
  by (induction s) (simp_all add: doubled_braces_def)

text \<open>
  Claim C6.  For every note text stored in the activity, \<open>get_description\<close> returns the
  triple of the description, \<open>None\<close> and the empty mapping, where the description is
  the text with each opening and each closing brace doubled and nothing else changed.
\<close>

theorem get_description_doubles_braces:
  assumes "map_of (data (activity self)) ''text'' = Some text"
  shows "get_description self = Inr (doubled_braces text, None, [])"
  using assms by (simp add: get_description_def replace_both_braces)

theorem get_description_doubles_braces_witness:
  "get_description \<lparr>activity = \<lparr>data = [(''text'', ''a{b}c'')]\<rparr>\<rparr>
     = Inr (''a{{b}}c'', None, [])"
  using get_description_doubles_braces
    [of "\<lparr>activity = \<lparr>data = [(''text'', ''a{b}c'')]\<rparr>\<rparr>" "''a{b}c''"]
  by (simp add: doubled_braces_def)

section \<open>Properties of the blame fetcher\<close>

subsection \<open>The commit of a file\<close>

text \<open>
  \<open>py_max\<close> cuts its input in three: the items before the result have strictly
  smaller keys, the items after it have keys that are no greater.
\<close>

lemma py_max_split:
  "\<exists>before after. b # xs = before @ py_max key b xs # after
     \<and> (\<forall>x\<in>set before. key x < key (py_max key b xs))
     \<and> (\<forall>x\<in>set after. key x \<le> key (py_max key b xs))"
proof (induction xs arbitrary: b)
  case Nil
  have "[b] = [] @ py_max key b [] # []" by simp
  then show ?case by (metis empty_iff list.set(1))
next
  case (Cons x xs)
  define b' where "b' = (if key b < key x then x else b)"
  define r where "r = py_max key b' xs"
  have r: "py_max key b (x # xs) = r" by (simp add: r_def b'_def)
  from Cons.IH[of b'] obtain before after where
    sp: "b' # xs = before @ r # after"
    and lt: "\<forall>y\<in>set before. key y < key r"
    and le: "\<forall>y\<in>set after. key y \<le> key r"
    unfolding r_def by blast
  have b'r: "key b' \<le> key r"
  proof (cases before)
    case Nil
    with sp show ?thesis by simp
  next
    case (Cons y ys)
    with sp lt show ?thesis by auto
  qed
  show ?case
  proof (cases "key b < key x")
    case True
    then have "b' = x" by (simp add: b'_def)
    with sp have "b # x # xs = (b # before) @ r # after" by simp
    moreover from True \<open>b' = x\<close> b'r lt have "\<forall>y\<in>set (b # before). key y < key r" by auto
    ultimately show ?thesis unfolding r using le by blast
  next
    case False
    then have bb: "b' = b" by (simp add: b'_def)
    show ?thesis
    proof (cases before)
      case Nil
      with sp bb have "r = b" "after = xs" by simp_all
      then have "b # x # xs = [] @ r # (x # after)" by simp
      moreover from False \<open>r = b\<close> le have "\<forall>y\<in>set (x # after). key y \<le> key r" by auto
      ultimately show ?thesis unfolding r by (metis empty_iff list.set(1))
    next
      case (Cons y ys)
      with sp bb have y: "y = b" and xs: "xs = ys @ r # after" by simp_all
      have "b # x # xs = (b # x # ys) @ r # after" using xs by simp
      moreover from lt Cons y False have "\<forall>z\<in>set (b # x # ys). key z < key r" by auto
      ultimately show ?thesis unfolding r using le by blast
    qed
  qed
qed

lemma create_commit_None_iff:
  "fst (create_commit_from_blame E (item_commit item)) = None \<longleftrightarrow> lacks_required_info E item"
  by (auto simp: create_commit_from_blame_def lacks_required_info_def Let_def dict_get_def
      py_not_def split: option.splits)

lemma no_valid_commit:
  assumes "\<forall>item\<in>set items. lacks_required_info E item"
  shows "fst (get_commit_info_from_blame_response E (Some items)) = None"
proof -
  have "List.map_filter (\<lambda>c. c)
          (map (\<lambda>item. fst (create_commit_from_blame E (item_commit item))) items) = []"
    using assms by (induction items) (simp_all add: List.map_filter_simps create_commit_None_iff[symmetric])
  then show ?thesis
    by (simp add: get_commit_info_from_blame_response_def Let_def comp_def)
qed

lemma demo_create [simp]:
  "create_commit_from_blame demo_env (item_commit (demo_hunk ''a'' ''d1'')) = (Some (demo_commit ''a'' 1), [])"
  "create_commit_from_blame demo_env (item_commit (demo_hunk ''b'' ''d2'')) = (Some (demo_commit ''b'' 2), [])"
  "create_commit_from_blame demo_env (item_commit (demo_hunk ''c'' ''d2'')) = (Some (demo_commit ''c'' 2), [])"
  "create_commit_from_blame demo_env (item_commit (demo_hunk ''y'' ''??'')) =
     (None, [LogException ''get_blame_for_files.invalid_commit_response''])"
  by (simp_all add: create_commit_from_blame_def demo_hunk_def demo_env_def dict_get_def
      py_not_def demo_commit_def)

lemma demo_valid:
  "List.map_filter (\<lambda>c. c)
      (map (\<lambda>item. fst (create_commit_from_blame demo_env (item_commit item))) demo_hunks)
   = [demo_commit ''a'' 1, demo_commit ''b'' 2, demo_commit ''c'' 2]"
  by (simp add: demo_hunks_def List.map_filter_simps)

lemma demo_response_empty:
  "cached_or_fetched_response demo_env (demo_file ''empty'') \<lparr>client = c, events = ev\<rparr> =
     (Inr (SequenceApiResponse demo_invalid_hunks [(''RateLimit-Remaining'', ''5'')]),
      \<lparr>client = Suc c, events = ev\<rparr>)"
  "cached_or_fetched_response demo_env (demo_file ''nohunks'') \<lparr>client = c, events = ev\<rparr> =
     (Inr (SequenceApiResponse [] [(''RateLimit-Remaining'', ''5'')]),
      \<lparr>client = Suc c, events = ev\<rparr>)"
  by (simp_all add: cached_or_fetched_response_def demo_env_def demo_file_def)

lemma demo_invalid: "\<forall>item\<in>set demo_invalid_hunks. lacks_required_info demo_env item"
  by (simp add: demo_invalid_hunks_def lacks_required_info_def dict_get_def py_not_def
      demo_hunk_def demo_env_def)

lemma demo_rate_limit:
  "get_rate_limit_info_from_response demo_env
     (SequenceApiResponse items [(''RateLimit-Remaining'', ''5'')])
   = Some \<lparr>limit = 2000, remaining = 5, reset = 0\<rparr>"
  by (simp add: demo_env_def)

text \<open>
  Claim C3.  When the hunks of a file yield at least one commit with a valid id and a
  parseable committed date (\<open>valid\<close>, in response order), the commit selected, which
  is the commit of the file's \<open>FileBlameInfo\<close>, has the maximum committed timestamp,
  and among the commits tied at that maximum it is the first in response order: every
  commit before it is strictly older, every commit after it is no younger.
\<close>

theorem latest_commit_selected_first_on_tie:
  assumes "valid = List.map_filter (\<lambda>c. c)
                     (map (\<lambda>item. fst (create_commit_from_blame E (item_commit item))) items)"
      and "valid \<noteq> []"
  shows "\<exists>before c after.
           fst (get_commit_info_from_blame_response E (Some items)) = Some c
         \<and> commit (create_file_blame_info c f) = c
         \<and> valid = before @ c # after
         \<and> (\<forall>x\<in>set before. committedDate x < committedDate c)
         \<and> (\<forall>x\<in>set after. committedDate x \<le> committedDate c)"
proof -
  from assms(2) obtain b xs where bxs: "valid = b # xs" by (cases valid) auto
  define c where "c = py_max committedDate b xs"
  have "List.map_filter (\<lambda>c. c)
          (map (\<lambda>item. fst (create_commit_from_blame E (item_commit item))) items) = b # xs"
    using assms(1) bxs by simp
  then have sel: "fst (get_commit_info_from_blame_response E (Some items)) = Some c"
    by (simp add: get_commit_info_from_blame_response_def c_def Let_def comp_def)
  have ext: "commit (create_file_blame_info c f) = c"
    by (simp add: create_file_blame_info_def SourceLineInfo.extend_def FileBlameInfo.fields_def)
  from py_max_split[of b xs committedDate] obtain before after where
    "b # xs = before @ c # after"
    "\<forall>x\<in>set before. committedDate x < committedDate c"
    "\<forall>x\<in>set after. committedDate x \<le> committedDate c"
    unfolding c_def by blast
  with sel ext bxs show ?thesis by blast
qed

theorem latest_commit_selected_first_on_tie_witness:
  "\<exists>before c after.
      fst (get_commit_info_from_blame_response demo_env (Some demo_hunks)) = Some c
    \<and> commit (create_file_blame_info c (demo_file ''ok'')) = c
    \<and> [demo_commit ''a'' 1, demo_commit ''b'' 2, demo_commit ''c'' 2] = before @ c # after
    \<and> (\<forall>x\<in>set before. committedDate x < committedDate c)
    \<and> (\<forall>x\<in>set after. committedDate x \<le> committedDate c)"
  using latest_commit_selected_first_on_tie
    [of "[demo_commit ''a'' 1, demo_commit ''b'' 2, demo_commit ''c'' 2]" demo_env demo_hunks
        "demo_file ''ok''"]
  by (simp add: demo_valid)

text \<open>
  Claim C5.  A file whose response has no hunks, or only hunks that lack a valid commit
  id or a parseable committed date, is fetched without an error and without a commit,
  so the loop adds no entry for it: it goes on to the next file with the blames
  unchanged.  The one exception that can leave the loop at that file is the batch guard
  on the remaining quota, which does not look at the hunks.
\<close>

theorem no_valid_hunk_no_blame:
  assumes "cached_or_fetched_response E f s = (Inr (SequenceApiResponse items hdrs), s1)"
      and "\<forall>item\<in>set items. lacks_required_info E item"
  shows "\<exists>s2. fetch_file_blame E f s =
                 (Inr (None, get_rate_limit_info_from_response E (SequenceApiResponse items hdrs)), s2)
            \<and> client s2 = client s1
            \<and> fetch_loop E n i (f # rest) blames s =
                (if i = 0 \<and> 1 < n
                    \<and> (case get_rate_limit_info_from_response E (SequenceApiResponse items hdrs) of
                          None \<Rightarrow> False
                        | Some info \<Rightarrow> remaining info < 100 - int n)
                 then rate_limit_abort s2
                 else fetch_loop E n (Suc i) rest blames s2)"
proof -
  obtain found logged where g: "get_commit_info_from_blame_response E (Some items) = (found, logged)"
    by (cases "get_commit_info_from_blame_response E (Some items)")
  with no_valid_commit[OF assms(2)] have found: "found = None" by simp
  define s2 where "s2 = s1\<lparr>events := events s1 @ logged\<rparr>"
  have fetch: "fetch_file_blame E f s =
      (Inr (None, get_rate_limit_info_from_response E (SequenceApiResponse items hdrs)), s2)"
    using assms(1) g found by (simp add: fetch_file_blame_def s2_def)
  have "client s2 = client s1" by (simp add: s2_def)
  moreover have "fetch_loop E n i (f # rest) blames s =
                (if i = 0 \<and> 1 < n
                    \<and> (case get_rate_limit_info_from_response E (SequenceApiResponse items hdrs) of
                          None \<Rightarrow> False
                        | Some info \<Rightarrow> remaining info < 100 - int n)
                 then rate_limit_abort s2
                 else fetch_loop E n (Suc i) rest blames s2)"
    using fetch by (simp add: MINIMUM_REQUESTS_def split: option.splits)
  ultimately show ?thesis using fetch by blast
qed

theorem no_valid_hunk_no_blame_witness:
  "(\<exists>s2. fetch_file_blame demo_env (demo_file ''empty'') demo_state =
           (Inr (None, Some \<lparr>limit = 2000, remaining = 5, reset = 0\<rparr>), s2)
      \<and> client s2 = 1
      \<and> fetch_loop demo_env 1 0 [demo_file ''empty''] [] demo_state = (Inr [], s2))
   \<and> (\<exists>s2. fetch_file_blame demo_env (demo_file ''nohunks'') demo_state =
           (Inr (None, Some \<lparr>limit = 2000, remaining = 5, reset = 0\<rparr>), s2)
      \<and> client s2 = 1
      \<and> fetch_loop demo_env 3 0 [demo_file ''nohunks'', demo_file ''ok'', demo_file ''ok'']
            [] demo_state = rate_limit_abort s2)"
  using no_valid_hunk_no_blame
    [of demo_env "demo_file ''empty''" demo_state demo_invalid_hunks
        "[(''RateLimit-Remaining'', ''5'')]" "\<lparr>client = 1, events = []\<rparr>" 1 0 "[]" "[]"]
    no_valid_hunk_no_blame
    [of demo_env "demo_file ''nohunks''" demo_state "[]"
        "[(''RateLimit-Remaining'', ''5'')]" "\<lparr>client = 1, events = []\<rparr>" 3 0
        "[demo_file ''ok'', demo_file ''ok'']" "[]"]
    demo_invalid
  by (simp add: demo_response_empty demo_state_def demo_rate_limit)

subsection \<open>The loop over the files\<close>

lemma fetch_loop_length:
  "fetch_loop E n i files blames s = (Inr out, s') \<Longrightarrow> length out \<le> length blames + length files"
proof (induction files arbitrary: i blames s)
  case Nil
  then show ?case by simp
next
  case (Cons f rest)
  show ?case
  proof (cases "fetch_file_blame E f s")
    case (Pair res s1)
    show ?thesis
    proof (cases res)
      case (Inl e)
      with Pair Cons.prems have "is_ApiError e"
        and "fetch_loop E n (Suc i) rest blames (handle_file_blame_error e f s1) = (Inr out, s')"
        by (auto split: if_splits)
      from Cons.IH[OF this(2)] show ?thesis by simp
    next
      case (Inr r)
      obtain found info where r: "r = (found, info)" by (cases r)
      define blames1 where "blames1 = (case found of None \<Rightarrow> blames
                          | Some c \<Rightarrow> blames @ [create_file_blame_info c f])"
      have len: "length blames1 \<le> Suc (length blames)"
        by (simp add: blames1_def split: option.splits)
      from Pair Inr r Cons.prems have "fetch_loop E n (Suc i) rest blames1 s1 = (Inr out, s')"
        by (auto simp: blames1_def rate_limit_abort_def Let_def split: if_splits)
      from Cons.IH[OF this] len show ?thesis by simp
    qed
  qed
qed

lemma fetch_loop_later_no_api_error:
  "0 < i \<Longrightarrow> fetch_loop E n i files blames s = (Inl e, s') \<Longrightarrow> \<not> is_ApiError e"
proof (induction files arbitrary: i blames s)
  case Nil
  then show ?case by simp
next
  case (Cons f rest)
  show ?case
  proof (cases "fetch_file_blame E f s")
    case (Pair res s1)
    show ?thesis
    proof (cases res)
      case (Inl e1)
      show ?thesis
      proof (cases "is_ApiError e1")
        case True
        with Pair Inl Cons.prems
        have "fetch_loop E n (Suc i) rest blames (handle_file_blame_error e1 f s1) = (Inl e, s')"
          by simp
        from Cons.IH[OF _ this] show ?thesis by simp
      next
        case False
        with Pair Inl Cons.prems show ?thesis by simp
      qed
    next
      case (Inr r)
      obtain found info where r: "r = (found, info)" by (cases r)
      define blames1 where "blames1 = (case found of None \<Rightarrow> blames
                          | Some c \<Rightarrow> blames @ [create_file_blame_info c f])"
      from Pair Inr r Cons.prems have "fetch_loop E n (Suc i) rest blames1 s1 = (Inl e, s')"
        by (auto simp: blames1_def Let_def split: if_splits)
      from Cons.IH[OF _ this] show ?thesis by simp
    qed
  qed
qed

lemma demo_fetch_ok:
  "fetch_file_blame demo_env (demo_file ''ok'') \<lparr>client = c, events = ev\<rparr> =
    (Inr (Some (demo_commit ''b'' 2), Some \<lparr>limit = 2000, remaining = 5, reset = 0\<rparr>),
     \<lparr>client = Suc c, events = ev @ [LogException ''get_blame_for_files.invalid_commit_response'']\<rparr>)"
  by (simp add: fetch_file_blame_def cached_or_fetched_response_def demo_env_def demo_file_def
     get_commit_info_from_blame_response_def demo_hunks_def List.map_filter_simps demo_commit_def
     create_commit_from_blame_def demo_hunk_def dict_get_def py_not_def)

lemma demo_fetch_bad:
  "fetch_file_blame demo_env (demo_file ''bad'') \<lparr>client = c, events = ev\<rparr> =
    (Inl (ApiError (Some 500) ''server error''), \<lparr>client = Suc c, events = ev\<rparr>)"
  by (simp add: fetch_file_blame_def cached_or_fetched_response_def demo_env_def demo_file_def)

lemma demo_batch:
  "fetch_file_blames demo_env [demo_file ''bad'', demo_file ''ok'', demo_file ''ok''] demo_state =
     (Inr [create_file_blame_info (demo_commit ''b'' 2) (demo_file ''ok''),
           create_file_blame_info (demo_commit ''b'' 2) (demo_file ''ok'')],
      \<lparr>client = 3,
       events = [LogException ''get_blame_for_files.api_error'',
                 LogException ''get_blame_for_files.invalid_commit_response'',
                 LogException ''get_blame_for_files.invalid_commit_response'']\<rparr>)"
  by (simp add: fetch_file_blames_def demo_state_def demo_fetch_bad demo_fetch_ok
      handle_file_blame_error_def)

text \<open>
  Claim C4.  The list returned by \<open>fetch_file_blames\<close> is never longer than the list
  of files; on the empty list it returns the empty list, in the state it started in,
  so that neither a request nor the rate-limit guard has run.
\<close>

theorem fetch_file_blames_length:
  "(\<forall>blames s'. fetch_file_blames E files s = (Inr blames, s') \<longrightarrow> length blames \<le> length files)
   \<and> fetch_file_blames E [] s = (Inr [], s)"
proof
  show "\<forall>blames s'. fetch_file_blames E files s = (Inr blames, s') \<longrightarrow> length blames \<le> length files"
    using fetch_loop_length[of E "length files" 0 files "[]" s]
    by (simp add: fetch_file_blames_def)
  show "fetch_file_blames E [] s = (Inr [], s)"
    by (simp add: fetch_file_blames_def)
qed

theorem fetch_file_blames_length_witness:
  "\<exists>blames s'. fetch_file_blames demo_env [demo_file ''bad'', demo_file ''ok'', demo_file ''ok'']
       demo_state = (Inr blames, s')
     \<and> length blames = 2
     \<and> length blames \<le> length [demo_file ''bad'', demo_file ''ok'', demo_file ''ok'']"
  using fetch_file_blames_length
    [of demo_env "[demo_file ''bad'', demo_file ''ok'', demo_file ''ok'']" demo_state]
  by (simp add: demo_batch)

text \<open>
  Claim C2.  In a batch of \<open>N > 1\<close> files, when the call for the first file succeeds
  and reports a remaining quota below \<open>100 - N\<close>, \<open>fetch_file_blames\<close> raises the
  rate-limit error.  The state it leaves is the state after the first file's call
  with the metric and the log entry of the guard added: no further file was requested.
\<close>

theorem rate_limit_guard_aborts_batch:
  assumes "fetch_file_blame E f s = (Inr (found, Some info), s1)"
      and "rest \<noteq> []"
      and "remaining info < 100 - int (length (f # rest))"
  shows "fetch_file_blames E (f # rest) s =
           (Inl (ApiRateLimitedError ''Approaching GitLab API rate limit''),
            s1\<lparr>events := events s1
                 @ [MetricIncr ''integrations.gitlab.get_blame_for_files.rate_limit'',
                    LogException ''get_blame_for_files.rate_limit_too_low'']\<rparr>)"
proof -
  from assms(2) have "1 < length (f # rest)" by (cases rest) simp_all
  with assms(1,3) show ?thesis
    by (simp add: fetch_file_blames_def rate_limit_abort_def MINIMUM_REQUESTS_def)
qed

theorem rate_limit_guard_aborts_batch_witness:
  "fetch_file_blames demo_env [demo_file ''ok'', demo_file ''bad'', demo_file ''ok''] demo_state =
     (Inl (ApiRateLimitedError ''Approaching GitLab API rate limit''),
      \<lparr>client = 1,
       events = [LogException ''get_blame_for_files.invalid_commit_response'',
                 MetricIncr ''integrations.gitlab.get_blame_for_files.rate_limit'',
                 LogException ''get_blame_for_files.rate_limit_too_low'']\<rparr>)"
  using rate_limit_guard_aborts_batch
    [of demo_env "demo_file ''ok''" demo_state "Some (demo_commit ''b'' 2)"
        "\<lparr>limit = 2000, remaining = 5, reset = 0\<rparr>"
        "\<lparr>client = 1, events = [LogException ''get_blame_for_files.invalid_commit_response'']\<rparr>"
        "[demo_file ''bad'', demo_file ''ok'']"]
  by (simp add: demo_fetch_ok demo_state_def)

text \<open>
  Claim C10.  When the request for the first file raises an API error, which is
  handled for that file alone, \<open>fetch_file_blames\<close> does not raise the rate-limit
  error, whatever the later files report and however many files there are.
\<close>

theorem first_file_error_skips_guard:
  assumes "fetch_file_blame E f s = (Inl e, s1)"
      and "is_ApiError e"
  shows "fst (fetch_file_blames E (f # rest) s) \<noteq> Inl (ApiRateLimitedError msg)"
proof
  assume abort: "fst (fetch_file_blames E (f # rest) s) = Inl (ApiRateLimitedError msg)"
  obtain s' where
    "fetch_loop E (length (f # rest)) (Suc 0) rest [] (handle_file_blame_error e f s1)
       = (Inl (ApiRateLimitedError msg), s')"
    using abort assms by (cases "fetch_file_blames E (f # rest) s") (simp add: fetch_file_blames_def)
  from fetch_loop_later_no_api_error[OF _ this] show False by simp
qed

theorem first_file_error_skips_guard_witness:
  "fetch_file_blame demo_env (demo_file ''bad'') demo_state =
      (Inl (ApiError (Some 500) ''server error''), \<lparr>client = 1, events = []\<rparr>)
   \<and> is_ApiError (ApiError (Some 500) ''server error'')
   \<and> fst (fetch_file_blames demo_env [demo_file ''bad'', demo_file ''ok'', demo_file ''ok''] demo_state)
       \<noteq> Inl (ApiRateLimitedError ''Approaching GitLab API rate limit'')"
  using first_file_error_skips_guard
    [of demo_env "demo_file ''bad''" demo_state "ApiError (Some 500) ''server error''"
        "\<lparr>client = 1, events = []\<rparr>" "[demo_file ''ok'', demo_file ''ok'']"
        "''Approaching GitLab API rate limit''"]
  by (simp add: demo_fetch_bad demo_state_def)

section \<open>Properties of the signed links\<close>

subsection \<open>Splitting and signing\<close>

lemma rsplit1_None: "c \<notin> set b \<Longrightarrow> rsplit1 c b = None"
  by (induction b) (auto split: option.splits)

lemma rsplit1_last: "c \<notin> set b \<Longrightarrow> rsplit1 c (a @ c # b) = Some (a, b)"
proof (induction a)
  case Nil
  have "rsplit1 c b = None" using Nil by (induction b) (auto split: option.splits)
  then show ?case by simp
next
  case (Cons x a)
  then show ?case by simp
qed

lemma rsplit_Suc_last: "c \<notin> set b \<Longrightarrow> rsplit c (Suc n) (a @ c # b) = rsplit c n a @ [b]"
  by (simp add: rsplit1_last)

lemma rsplit1_Some: "rsplit1 c s = Some (a, b) \<Longrightarrow> s = a @ c # b \<and> c \<notin> set b"
proof (induction s arbitrary: a)
  case Nil
  then show ?case by simp
next
  case (Cons x xs)
  show ?case
  proof (cases "rsplit1 c xs")
    case None
    have "c \<notin> set xs"
      using None by (induction xs) (auto split: option.splits if_splits)
    with Cons.prems None show ?thesis by (auto split: if_splits)
  next
    case (Some ab)
    obtain a' b' where ab: "ab = (a', b')" by (cases ab)
    with Cons.prems Some have "a = x # a'" "b = b'" by simp_all
    with Cons.IH[of a'] Some ab show ?thesis by simp
  qed
qed

lemma rsplit_1_cases:
  "rsplit c 1 s = (case rsplit1 c s of None \<Rightarrow> [s] | Some (a, b) \<Rightarrow> [a, b])"
  by (simp split: option.splits)

lemma rsplit_2_three:
  assumes "rsplit c 2 s = [v, ts, m]"
  shows "rsplit c 1 s = [v @ c # ts, m] \<and> rsplit c 1 (v @ c # ts) = [v, ts]"
proof -
  have two: "rsplit c 2 s =
      (case rsplit1 c s of None \<Rightarrow> [s] | Some (a, b) \<Rightarrow> rsplit c (Suc 0) a @ [b])"
    by (simp add: numeral_2_eq_2)
  from assms two obtain a where a: "rsplit1 c s = Some (a, m)" and r1: "rsplit c 1 a = [v, ts]"
    by (auto split: option.splits)
  from r1 have "rsplit1 c a = Some (v, ts)"
    by (auto simp: rsplit_1_cases split: option.splits)
  from rsplit1_Some[OF this] have "a = v @ c # ts" by simp
  with a r1 show ?thesis by (simp add: rsplit_1_cases)
qed

lemma length_str_split: "length (str_split c s) = Suc (count_list s c)"
  by (induction s) (auto split: list.splits)

lemma timestamp_sign_parts:
  "timestamp_sign E t item =
     item @ CHR '':'' # b62_encode E t @ CHR '':'' # signature_of E (item @ CHR '':'' # b62_encode E t)"
  by (simp add: timestamp_sign_def signer_sign_def)

lemma signature_segment:
  assumes "CHR '':'' \<notin> set ts" and "CHR '':'' \<notin> set m"
  shows "str_join '':'' (drop 1 (rsplit CHR '':'' 2 (item @ CHR '':'' # ts @ CHR '':'' # m)))
           = ts @ CHR '':'' # m"
proof -
  have "rsplit CHR '':'' 2 ((item @ CHR '':'' # ts) @ CHR '':'' # m)
          = rsplit CHR '':'' 1 (item @ CHR '':'' # ts) @ [m]"
    using rsplit_Suc_last[OF assms(2), of "Suc 0" "item @ CHR '':'' # ts"]
    by (simp add: numeral_2_eq_2)
  also have "rsplit CHR '':'' 1 (item @ CHR '':'' # ts) = [item, ts]"
    using rsplit_Suc_last[OF assms(1), of 0 item] by simp
  finally show ?thesis by simp
qed

lemma timestamp_unsign_fresh:
  assumes "CHR '':'' \<notin> set (b62_encode E t)"
      and "CHR '':'' \<notin> set (signature_of E (item @ CHR '':'' # b62_encode E t))"
      and "b62_decode E (b62_encode E t) = Inr t"
      and "now - t \<le> max_age"
  shows "timestamp_unsign E now (timestamp_sign E t item) max_age = Inr item"
proof -
  let ?ts = "b62_encode E t"
  let ?m = "signature_of E (item @ CHR '':'' # ?ts)"
  have "rsplit CHR '':'' 1 ((item @ CHR '':'' # ?ts) @ CHR '':'' # ?m) = [item @ CHR '':'' # ?ts, ?m]"
    using rsplit_Suc_last[OF assms(2), of 0 "item @ CHR '':'' # ?ts"] by simp
  then have "signer_unsign E (timestamp_sign E t item) = Inr (item @ CHR '':'' # ?ts)"
    by (simp add: signer_unsign_def timestamp_sign_parts)
  moreover have "rsplit CHR '':'' 1 (item @ CHR '':'' # ?ts) = [item, ?ts]"
    using rsplit_Suc_last[OF assms(1), of 0 item] by simp
  ultimately show ?thesis
    using assms(3,4) by (simp add: timestamp_unsign_def)
qed

lemma rsplit_payload:
  assumes "CHR ''|'' \<notin> set p" and "CHR ''|'' \<notin> set enc"
  shows "rsplit CHR ''|'' 2 (pre @ CHR ''|'' # p @ CHR ''|'' # enc) = [pre, p, enc]"
proof -
  have "rsplit CHR ''|'' 2 ((pre @ CHR ''|'' # p) @ CHR ''|'' # enc)
          = rsplit CHR ''|'' 1 (pre @ CHR ''|'' # p) @ [enc]"
    using rsplit_Suc_last[OF assms(2), of "Suc 0" "pre @ CHR ''|'' # p"]
    by (simp add: numeral_2_eq_2)
  also have "rsplit CHR ''|'' 1 (pre @ CHR ''|'' # p) = [pre, p]"
    using rsplit_Suc_last[OF assms(1), of 0 pre] by simp
  finally show ?thesis by simp
qed

lemma tampered_unsign:
  assumes "signature_tampered E req sig"
  shows "timestamp_unsign E now (url_prefix E @ ''|'' @ request_path req @ ''|'' @ sig) max_age
           = Inl BadSignature"
proof -
  let ?d = "url_prefix E @ ''|'' @ request_path req @ ''|'' @ sig"
  from assms obtain v m where vm: "rsplit CHR '':'' 1 ?d = [v, m]" and bad: "m \<noteq> signature_of E v"
    unfolding signature_tampered_def
    by (cases "rsplit CHR '':'' 1 ?d" rule: list.exhaust)
       (auto split: list.splits)
  have "CHR '':'' \<in> set ?d"
  proof (rule ccontr)
    assume "CHR '':'' \<notin> set ?d"
    then have "rsplit1 CHR '':'' ?d = None" by (rule rsplit1_None)
    with vm show False by (simp add: rsplit_1_cases)
  qed
  with vm bad have "signer_unsign E ?d = Inl BadSignature"
    by (simp add: signer_unsign_def)
  then show ?thesis by (simp add: timestamp_unsign_def)
qed

lemma expired_unsign:
  assumes "signature_expired E now req sig max_age"
  shows "timestamp_unsign E now (url_prefix E @ ''|'' @ request_path req @ ''|'' @ sig) max_age
           = Inl SignatureExpired"
proof -
  let ?d = "url_prefix E @ ''|'' @ request_path req @ ''|'' @ sig"
  from assms obtain v ts m where
    three: "rsplit CHR '':'' 2 ?d = [v, ts, m]"
    and m: "m = signature_of E (v @ '':'' @ ts)"
    and old: "case b62_decode E ts of Inl e \<Rightarrow> False | Inr t \<Rightarrow> max_age < now - t"
    unfolding signature_expired_def
    by (auto split: list.splits)
  from rsplit_2_three[OF three]
  have one: "rsplit CHR '':'' 1 ?d = [v @ CHR '':'' # ts, m]"
    and inner: "rsplit CHR '':'' 1 (v @ CHR '':'' # ts) = [v, ts]" by simp_all
  have "CHR '':'' \<in> set ?d"
  proof (rule ccontr)
    assume "CHR '':'' \<notin> set ?d"
    then have "rsplit1 CHR '':'' ?d = None" by (rule rsplit1_None)
    with one show False by (simp add: rsplit_1_cases)
  qed
  with one m have "signer_unsign E ?d = Inr (v @ CHR '':'' # ts)"
    by (simp add: signer_unsign_def)
  with inner old show ?thesis
    by (auto simp: timestamp_unsign_def split: sum.splits)
qed

lemma verify_rejects:
  assumes "signature_tampered E req sig \<or> signature_expired E now req sig max_age
             \<or> signed_path_mismatch E now req sig max_age"
  shows "fst (verify_signature E now req sig max_age) = Inr None"
  using assms
proof (elim disjE)
  assume "signature_tampered E req sig"
  from tampered_unsign[OF this, of now max_age] show ?thesis
    by (simp add: verify_signature_def)
next
  assume "signature_expired E now req sig max_age"
  from expired_unsign[OF this] show ?thesis
    by (simp add: verify_signature_def)
next
  assume "signed_path_mismatch E now req sig max_age"
  then show ?thesis
    by (auto simp: signed_path_mismatch_def verify_signature_def split: sum.splits list.splits)
qed

lemma demo_generate:
  "generate_signed_link link_demo_env 3 (UserObject demo_user) ''v'' (Some ''mail'') None None
     = Inr (''http://x/v/?_='' @ demo_sig @ ''&referrer=mail'')"
  by code_simp

lemma demo_tampered: "signature_tampered link_demo_env (demo_request ''/w/'' demo_sig) demo_sig"
  by code_simp

lemma demo_expired:
  "signature_expired link_demo_env 864004 (demo_request ''/v/'' demo_sig) demo_sig 864000"
  by code_simp

lemma demo_mismatch:
  "signed_path_mismatch link_demo_env 10
     (demo_request ''/v/'' ''5|5:111:http//x|/v/|5|5111'') ''5|5:111:http//x|/v/|5|5111'' 864000"
  by code_simp

lemma demo_two_segments:
  "process_signature link_demo_env 10 (demo_request ''/v/'' ''a:b'') 864000 = (Inr None, [])"
  "verify_signature link_demo_env 10 (demo_request ''/v/'' ''a:b'') ''a:b'' 864000
     = (Inr None, [BadSignature])"
  by code_simp+

subsection \<open>Generating a link\<close>

text \<open>
  Claim C7.  For a user object whose authenticated flag is false,
  \<open>generate_signed_link\<close> raises a \<open>RuntimeError\<close> at once: whatever the view name, the
  resolver and the other arguments are, no link is returned.
\<close>

theorem unauthenticated_user_rejected:
  assumes "\<not> is_authenticated u"
  shows "generate_signed_link E t (UserObject u) viewname referrer args kwargs
           = Inl (RuntimeError ''Need an authenticated user to sign a link.'')"
  using assms by (simp add: generate_signed_link_def)

theorem unauthenticated_user_rejected_witness:
  "generate_signed_link link_demo_env 3 (UserObject \<lparr>is_authenticated = False, user_id = 5\<rparr>)
      ''v'' None None None
     = Inl (RuntimeError ''Need an authenticated user to sign a link.'')"
  using unauthenticated_user_rejected
    [of "\<lparr>is_authenticated = False, user_id = 5\<rparr>" link_demo_env 3 "''v''" None None None]
  by simp

subsection \<open>Processing a signature\<close>

text \<open>
  Claim C9, as the specification states it: a parameter with at least two
  colon-delimited segments passes the format check of \<open>process_signature\<close>.  It fails
  for \<open>a:b\<close>, which has two segments: \<open>process_signature\<close> returns nothing and reports
  nothing, while the verification it would otherwise run reports a bad signature.
\<close>

theorem two_segments_fail_format_check:
  "length (str_split CHR '':'' ''a:b'') = 2
   \<and> process_signature link_demo_env 10 (demo_request ''/v/'' ''a:b'') 864000 = (Inr None, [])
   \<and> process_signature link_demo_env 10 (demo_request ''/v/'' ''a:b'') 864000
       \<noteq> verify_signature link_demo_env 10 (demo_request ''/v/'' ''a:b'') ''a:b'' 864000"
  by (simp add: demo_two_segments)

text \<open>
  Claim C9, amended.  \<open>process_signature\<close> requires the parameter to contain at least
  two colons, that is at least three colon-delimited segments: a request without the
  parameter, or whose parameter has fewer than three segments, returns nothing and
  reports nothing, whatever the signer is; a parameter with at least three segments
  passes the check and the result is that of the verification.
\<close>

theorem signature_needs_three_segments:
  "(find_signature req = None \<longrightarrow> process_signature E now req max_age = (Inr None, []))
   \<and> (find_signature req = Some sig \<and> length (str_split CHR '':'' sig) < 3
        \<longrightarrow> process_signature E now req max_age = (Inr None, []))
   \<and> (find_signature req = Some sig \<and> 3 \<le> length (str_split CHR '':'' sig)
        \<longrightarrow> process_signature E now req max_age = verify_signature E now req sig max_age)"
  by (auto simp: process_signature_def py_not_def length_str_split)

theorem signature_needs_three_segments_witness:
  "length (str_split CHR '':'' ''a:b'') < 3
   \<and> process_signature link_demo_env 10 (demo_request ''/v/'' ''a:b'') 864000 = (Inr None, [])
   \<and> 3 \<le> length (str_split CHR '':'' demo_sig)
   \<and> process_signature link_demo_env 10 (demo_request ''/v/'' demo_sig) 864000
       = verify_signature link_demo_env 10 (demo_request ''/v/'' demo_sig) demo_sig 864000"
  using signature_needs_three_segments
          [of "demo_request ''/v/'' ''a:b''" link_demo_env 10 864000 "''a:b''"]
        signature_needs_three_segments
          [of "demo_request ''/v/'' demo_sig" link_demo_env 10 864000 demo_sig]
  by (simp add: demo_request_def find_signature_def demo_sig_def)

text \<open>
  Claim C8.  For a request whose signature is tampered with, whose timestamp is older
  than \<open>max_age\<close>, or whose signed path is not the path of the request,
  \<open>process_signature\<close> returns \<open>None\<close> and raises nothing.  The three instances below
  are a link signed for another path, a link used after its time, and a verifying
  parameter whose payload names another path.
\<close>

theorem invalid_signature_returns_nothing:
  assumes "find_signature req = Some sig"
      and "signature_tampered E req sig \<or> signature_expired E now req sig max_age
             \<or> signed_path_mismatch E now req sig max_age"
  shows "fst (process_signature E now req max_age) = Inr None"
  using assms(1) verify_rejects[OF assms(2)]
  by (simp add: process_signature_def Let_def)

theorem invalid_signature_returns_nothing_witness:
  "fst (process_signature link_demo_env 10 (demo_request ''/w/'' demo_sig) 864000) = Inr None
   \<and> fst (process_signature link_demo_env 864004 (demo_request ''/v/'' demo_sig) 864000) = Inr None
   \<and> fst (process_signature link_demo_env 10
            (demo_request ''/v/'' ''5|5:111:http//x|/v/|5|5111'') 864000) = Inr None"
  using invalid_signature_returns_nothing
          [of "demo_request ''/w/'' demo_sig" demo_sig link_demo_env 10 864000]
        invalid_signature_returns_nothing
          [of "demo_request ''/v/'' demo_sig" demo_sig link_demo_env 864004 864000]
        invalid_signature_returns_nothing
          [of "demo_request ''/v/'' ''5|5:111:http//x|/v/|5|5111''" "''5|5:111:http//x|/v/|5|5111''"
              link_demo_env 10 864000]
        demo_tampered demo_expired demo_mismatch
  by (simp add: demo_request_def find_signature_def)

text \<open>
  Claim C1.  Let \<open>generate_signed_link\<close> return \<open>url\<close> for a user (an authenticated user
  object, or a bare id) and a route that resolves to the path \<open>p\<close>, and let a request
  be made for exactly that URL under the same configuration: its path is \<open>p\<close> and its
  \<open>_\<close> parameter is what stands in \<open>url\<close> between \<open>?_=\<close> and the referrer suffix.
  If the request is processed within \<open>max_age\<close> seconds of the signing,
  \<open>process_signature\<close> returns what the user service returns for the original user id.
  The collaborators are assumed to keep their formats: timestamps and MACs contain no
  colon, the path and the encoded id no vertical bar, and decoding inverts encoding
  on the timestamp and on the id.
\<close>

theorem signed_link_roundtrip:
  assumes gen: "generate_signed_link E t user viewname referrer args kwargs = Inr url"
      and uid: "uid = (case user of UserObject u \<Rightarrow> user_id u | UserId i \<Rightarrow> i)"
      and rev: "reverse E viewname args kwargs = Inr p"
      and url: "url = to_url E p @ ''?_='' @ sig
                  @ (if py_not referrer then []
                     else ''&'' @ urlencode E [(''referrer'', the referrer)])"
      and req: "request_path req = p" "find_signature req = Some sig"
      and ts: "CHR '':'' \<notin> set (b62_encode E t)" "b62_decode E (b62_encode E t) = Inr t"
      and mac: "CHR '':'' \<notin> set (signature_of E
                   (url_prefix E @ ''|'' @ p @ ''|'' @ base36_encode E uid @ '':'' @ b62_encode E t))"
      and pipe: "CHR ''|'' \<notin> set p" "CHR ''|'' \<notin> set (base36_encode E uid)"
      and b36: "base36_decode E (base36_encode E uid) = Inr uid"
      and age: "now - t \<le> max_age"
  shows "process_signature E now req max_age =
           (case get_user E uid of
              Inl e \<Rightarrow> if e = ValueError then (Inr None, []) else (Inl e, [])
            | Inr found \<Rightarrow> (Inr found, []))"
proof -
  let ?enc = "base36_encode E uid"
  let ?item = "url_prefix E @ CHR ''|'' # p @ CHR ''|'' # ?enc"
  let ?ts = "b62_encode E t"
  let ?m = "signature_of E (?item @ CHR '':'' # ?ts)"
  have mac': "CHR '':'' \<notin> set ?m" using mac by simp
  have resolved: "(case user of
              UserObject u \<Rightarrow>
                if \<not> is_authenticated u
                then Inl (RuntimeError ''Need an authenticated user to sign a link.'')
                else Inr (user_id u)
            | UserId i \<Rightarrow> Inr i) = Inr uid"
    using gen uid by (auto simp: generate_signed_link_def split: signing_user.splits if_splits)
  have "url = to_url E p @ ''?_='' @ (?enc @ CHR '':'' # ?ts @ CHR '':'' # ?m)
                @ (if py_not referrer then []
                   else ''&'' @ urlencode E [(''referrer'', the referrer)])"
    using gen rev signature_segment[OF ts(1) mac', of ?item]
    by (cases "py_not referrer")
       (simp_all add: generate_signed_link_def resolved timestamp_sign_parts Let_def)
  with url have sig: "sig = ?enc @ CHR '':'' # ?ts @ CHR '':'' # ?m" by simp
  have cnt: "\<not> count_list sig CHR '':'' < 2" by (simp add: sig)
  have signed: "url_prefix E @ ''|'' @ p @ ''|'' @ sig = timestamp_sign E t ?item"
    by (simp add: sig timestamp_sign_parts)
  have unsign: "timestamp_unsign E now (url_prefix E @ ''|'' @ p @ ''|'' @ sig) max_age = Inr ?item"
    unfolding signed using timestamp_unsign_fresh[OF ts(1) mac' ts(2) age] .
  have "verify_signature E now req sig max_age =
           (case get_user E uid of
              Inl e \<Rightarrow> if e = ValueError then (Inr None, []) else (Inl e, [])
            | Inr found \<Rightarrow> (Inr found, []))"
    using unsign rsplit_payload[OF pipe, of "url_prefix E"] b36 req(1)
    by (simp add: verify_signature_def)
  moreover have "process_signature E now req max_age = verify_signature E now req sig max_age"
    using req(2) cnt by (simp add: process_signature_def py_not_def sig)
  ultimately show ?thesis by simp
qed

theorem signed_link_roundtrip_witness:
  "generate_signed_link link_demo_env 3 (UserObject demo_user) ''v'' (Some ''mail'') None None
     = Inr (''http://x/v/?_='' @ demo_sig @ ''&referrer=mail'')
   \<and> process_signature link_demo_env 10 (demo_request ''/v/'' demo_sig) 864000
       = (Inr (Some ''alice''), [])"
proof -
  have "process_signature link_demo_env 10 (demo_request ''/v/'' demo_sig) 864000 =
           (case get_user link_demo_env 5 of
              Inl e \<Rightarrow> if e = ValueError then (Inr None, []) else (Inl e, [])
            | Inr found \<Rightarrow> (Inr found, []))"
  proof (rule signed_link_roundtrip[OF demo_generate, where p = "''/v/''" and sig = demo_sig])
    show "5 = (case UserObject demo_user of UserObject u \<Rightarrow> user_id u | UserId i \<Rightarrow> i)"
      by (simp add: demo_user_def)
    show "reverse link_demo_env ''v'' None None = Inr ''/v/''"
      by (simp add: link_demo_env_def)
    show "''http://x/v/?_='' @ demo_sig @ ''&referrer=mail'' =
            to_url link_demo_env ''/v/'' @ ''?_='' @ demo_sig
              @ (if py_not (Some ''mail'') then []
                 else ''&'' @ urlencode link_demo_env [(''referrer'', the (Some ''mail''))])"
      by (simp add: link_demo_env_def py_not_def)
    show "request_path (demo_request ''/v/'' demo_sig) = ''/v/''"
      by (simp add: demo_request_def)
    show "find_signature (demo_request ''/v/'' demo_sig) = Some demo_sig"
      by (simp add: demo_request_def find_signature_def)
    show "CHR '':'' \<notin> set (b62_encode link_demo_env 3)"
      by (simp add: link_demo_env_def)
    show "b62_decode link_demo_env (b62_encode link_demo_env 3) = Inr 3"
      by code_simp
    show "CHR '':'' \<notin> set (signature_of link_demo_env
            (url_prefix link_demo_env @ ''|'' @ ''/v/'' @ ''|'' @ base36_encode link_demo_env 5
               @ '':'' @ b62_encode link_demo_env 3))"
      by (simp add: link_demo_env_def)
    show "CHR ''|'' \<notin> set ''/v/''" by simp
    show "CHR ''|'' \<notin> set (base36_encode link_demo_env 5)"
      by (simp add: link_demo_env_def)
    show "base36_decode link_demo_env (base36_encode link_demo_env 5) = Inr 5"
      by (simp add: link_demo_env_def)
    show "(10::int) - 3 \<le> 864000" by simp
  qed
  then show ?thesis
    using demo_generate by (simp add: link_demo_env_def)
qed

end
